theory Spec2Isabelle
  imports Complex_Main "HOL-Library.AList"
begin

section \<open>JSON values and Python dictionaries\<close>

text \<open>
  \<^verbatim>\<open>crud.py\<close> is a Flask proxy in front of a Backendless table. The values it handles are
  what \<^verbatim>\<open>request.get_json\<close> and \<^verbatim>\<open>resp.json()\<close> produce: Python objects built from
  JSON. A Python \<^verbatim>\<open>dict\<close> is an association list in insertion order, read through
  \<open>map_of\<close>; a string is a list of bytes (its UTF-8 encoding).
\<close>

datatype json =
    JNull
  | JBool bool
  | JInt int
  | JFloat rat
  | JStr string
  | JArr "json list"
  | JObj "(string \<times> json) list"

type_synonym dict = "(string \<times> json) list"

datatype py_error = TypeError | KeyError | ValueError | ConnectionError

text \<open>Python truthiness, as used by \<^verbatim>\<open>x or {}\<close>, \<^verbatim>\<open>if where:\<close> and \<^verbatim>\<open>if not payload:\<close>.\<close>

fun truthy :: "json \<Rightarrow> bool" where
  "truthy JNull = False"
| "truthy (JBool b) = b"
| "truthy (JInt n) = (n \<noteq> 0)"
| "truthy (JFloat q) = (q \<noteq> 0)"
| "truthy (JStr s) = (s \<noteq> [])"
| "truthy (JArr xs) = (xs \<noteq> [])"
| "truthy (JObj d) = (d \<noteq> [])"

text \<open>\<^verbatim>\<open>k in s\<close> for two strings: substring test.\<close>

fun py_in_str :: "string \<Rightarrow> string \<Rightarrow> bool" where
  "py_in_str k [] = (k = [])"
| "py_in_str k (c # cs) = (take (length k) (c # cs) = k \<or> py_in_str k cs)"

text \<open>
  \<^verbatim>\<open>k in data\<close> for a string \<open>k\<close>: key membership on a dict, element membership on a
  list, substring on a string, \<^verbatim>\<open>TypeError\<close> on anything else.
\<close>

fun py_contains :: "string \<Rightarrow> json \<Rightarrow> py_error + bool" where
  "py_contains k (JObj d) = Inr (map_of d k \<noteq> None)"
| "py_contains k (JArr xs) = Inr (JStr k \<in> set xs)"
| "py_contains k (JStr s) = Inr (py_in_str k s)"
| "py_contains k _ = Inl TypeError"

text \<open>\<^verbatim>\<open>data[k]\<close> for a string \<open>k\<close>: only a dict can be indexed by a string.\<close>

fun py_getitem :: "json \<Rightarrow> string \<Rightarrow> py_error + json" where
  "py_getitem (JObj d) k = (case map_of d k of None \<Rightarrow> Inl KeyError | Some v \<Rightarrow> Inr v)"
| "py_getitem _ k = Inl TypeError"

section \<open>pick\_user\_fields\<close>

text \<open>
  \<^verbatim>\<open>
  allowed = {"email", "First Name", "Last Name", "ID", "password", "username"}
  out = {}
  for k in allowed:
      if k in data:
          out[k] = data[k]
  return out
  \<close>
  \<open>allowed\<close> is a Python set, whose iteration order is not fixed by the language, so
  the loop is modelled for any order \<open>ks\<close> of the keys; \<open>pick_user_fields\<close> runs it in
  the order of the source text.
\<close>

definition allowed :: "string list" where
  "allowed = [''email'', ''First Name'', ''Last Name'', ''ID'', ''password'', ''username'']"

fun pick_loop :: "string list \<Rightarrow> json \<Rightarrow> dict \<Rightarrow> py_error + dict" where
  "pick_loop [] data out = Inr out"
| "pick_loop (k # ks) data out =
     (case py_contains k data of
        Inl e \<Rightarrow> Inl e
      | Inr False \<Rightarrow> pick_loop ks data out
      | Inr True \<Rightarrow>
          (case py_getitem data k of
             Inl e \<Rightarrow> Inl e
           | Inr v \<Rightarrow> pick_loop ks data (AList.update k v out)))"

definition pick_user_fields :: "json \<Rightarrow> py_error + dict" where
  "pick_user_fields data = pick_loop allowed data []"

section \<open>Configuration, outbound requests, responses\<close>

record config =
  BACKENDLESS_BASE_URL :: string
  APP_ID :: "string option"
  API_KEY :: "string option"

text \<open>\<^verbatim>\<open>if APP_ID and API_KEY\<close>: both set and both non-empty.\<close>

definition DEFAULT_HEADERS :: "config \<Rightarrow> (string \<times> string) list" where
  "DEFAULT_HEADERS cfg =
     (case (APP_ID cfg, API_KEY cfg) of
        (Some a, Some k) \<Rightarrow>
          if a \<noteq> [] \<and> k \<noteq> [] then
            [(''Content-Type'', ''application/json''),
             (''X-Backendless-Application-Id'', a),
             (''X-Backendless-API-Key'', k)]
          else [(''Content-Type'', ''application/json'')]
      | _ \<Rightarrow> [(''Content-Type'', ''application/json'')])"

datatype http_method = GET | POST | PUT | DELETE

text \<open>
  One call of \<^verbatim>\<open>requests.get/post/put/delete\<close>. The body is the dict handed to
  \<^verbatim>\<open>json.dumps\<close>.
\<close>

record outbound =
  meth :: http_method
  url :: string
  headers :: "(string \<times> string) list"
  data :: "dict option"

text \<open>
  A \<^verbatim>\<open>requests.Response\<close>: \<open>json_body\<close> is what \<^verbatim>\<open>resp.json()\<close> returns, \<open>None\<close> when
  it raises.
\<close>

record response =
  status_code :: int
  text_of :: string
  json_body :: "json option"

text \<open>\<^verbatim>\<open>resp.ok\<close>: \<^verbatim>\<open>raise_for_status()\<close> raises exactly for 400 to 599.\<close>

definition ok :: "response \<Rightarrow> bool" where
  "ok r = (\<not> (400 \<le> status_code r \<and> status_code r < 600))"

text \<open>
  What the handlers take from outside: Python's \<^verbatim>\<open>int\<close> on a string (\<open>None\<close> when it
  raises \<^verbatim>\<open>ValueError\<close>) and the external service (\<open>None\<close> when \<^verbatim>\<open>requests\<close> raises
  instead of returning a response).
\<close>

record env =
  int_of_str :: "string \<Rightarrow> int option"
  send :: "outbound \<Rightarrow> response option"

text \<open>
  An inbound Flask request: the query arguments (\<^verbatim>\<open>request.args.get\<close> returns the first
  value of a key) and the result of \<^verbatim>\<open>request.get_json(force=True)\<close>, \<open>None\<close> when it
  raises.
\<close>

record request =
  args :: "(string \<times> string) list"
  get_json :: "json option"

text \<open>
  What a handler does: return \<^verbatim>\<open>jsonify(body), status\<close>, call \<^verbatim>\<open>abort(code, description)\<close>,
  or let an exception escape.
\<close>

datatype outcome = Reply json int | Abort int string | Uncaught py_error

text \<open>A handler's result: its outcome and the outbound calls it made, in order.\<close>

type_synonym result = "outcome \<times> outbound list"

section \<open>Query strings\<close>

text \<open>
  \<^verbatim>\<open>urllib.parse.urlencode\<close> on a dict whose values are strings or ints: each key and
  each \<^verbatim>\<open>str(value)\<close> goes through \<^verbatim>\<open>quote_plus\<close>, the pairs are joined with \<open>=\<close> and
  \<open>&\<close>. \<^verbatim>\<open>quote_plus\<close> keeps letters, digits and \<^verbatim>\<open>_.-~\<close>, writes a space as \<open>+\<close>
  and every other byte as \<open>%XX\<close> in upper-case hexadecimal.
\<close>

datatype qval = QStr string | QInt int

definition digit_char :: "nat \<Rightarrow> char" where
  "digit_char n = ''0123456789ABCDEF'' ! n"

fun digits :: "nat \<Rightarrow> string" where
  "digits n =
     (if n < 10 then [digit_char n] else digits (n div 10) @ [digit_char (n mod 10)])"

declare digits.simps [simp del]

fun py_str :: "qval \<Rightarrow> string" where
  "py_str (QStr s) = s"
| "py_str (QInt n) = (if n < 0 then ''-'' @ digits (nat (- n)) else digits (nat n))"

definition quote_char :: "char \<Rightarrow> string" where
  "quote_char c =
     (if c = CHR '' '' then ''+''
      else if c \<in> set ''ABCDEFGHIJKLMNOPQRSTUVWXYZabcdefghijklmnopqrstuvwxyz0123456789_.-~''
      then [c]
      else [CHR ''%'', digit_char (of_char c div 16), digit_char (of_char c mod 16)])"

definition quote_plus :: "string \<Rightarrow> string" where
  "quote_plus s = concat (map quote_char s)"

fun join_amp :: "string list \<Rightarrow> string" where
  "join_amp [] = []"
| "join_amp [x] = x"
| "join_amp (x # y # ys) = x @ ''&'' @ join_amp (y # ys)"

definition urlencode :: "(string \<times> qval) list \<Rightarrow> string" where
  "urlencode params =
     join_amp (map (\<lambda>(k, v). quote_plus k @ ''='' @ quote_plus (py_str v)) params)"

section \<open>Error normalisation\<close>

text \<open>
  \<^verbatim>\<open>
  def be_error(resp):
      try:
          payload = resp.json()
      except Exception:
          payload = {"message": resp.text or "Backendless error"}
      return jsonify({"error": True, "status": resp.status_code,
                      "backendless": payload}), resp.status_code
  \<close>
\<close>

definition be_error :: "response \<Rightarrow> outcome" where
  "be_error resp =
     (let payload =
            (case json_body resp of
               Some j \<Rightarrow> j
             | None \<Rightarrow>
                 JObj [(''message'',
                        JStr (if text_of resp \<noteq> [] then text_of resp
                              else ''Backendless error''))])
      in Reply (JObj [(''error'', JBool True),
                      (''status'', JInt (status_code resp)),
                      (''backendless'', payload)])
               (status_code resp))"

section \<open>The handlers\<close>

text \<open>
  Six of the seven handlers that call the service end with the same four lines, with
  their own verb and success code:
  \<^verbatim>\<open>
  resp = requests.get(url, headers=DEFAULT_HEADERS)
  if not resp.ok:
      return be_error(resp)
  return jsonify(resp.json()), 200
  \<close>
  \<open>relay\<close> is that tail. An exception of \<^verbatim>\<open>requests\<close> or of \<^verbatim>\<open>resp.json()\<close> escapes.
\<close>

definition relay :: "env \<Rightarrow> outbound \<Rightarrow> int \<Rightarrow> result" where
  "relay e q code =
     (case send e q of
        None \<Rightarrow> (Uncaught ConnectionError, [q])
      | Some resp \<Rightarrow>
          if \<not> ok resp then (be_error resp, [q])
          else (case json_body resp of
                  None \<Rightarrow> (Uncaught ValueError, [q])
                | Some j \<Rightarrow> (Reply j code, [q])))"

text \<open>\<^verbatim>\<open>int(request.args.get(name, default))\<close>.\<close>

definition int_arg :: "env \<Rightarrow> request \<Rightarrow> string \<Rightarrow> int \<Rightarrow> int option" where
  "int_arg e req name dflt =
     (case map_of (args req) name of None \<Rightarrow> Some dflt | Some s \<Rightarrow> int_of_str e s)"

text \<open>\<^verbatim>\<open>if v: params[name] = v\<close> for \<^verbatim>\<open>v = request.args.get(name)\<close>.\<close>

definition add_if_given :: "request \<Rightarrow> string \<Rightarrow> (string \<times> qval) list \<Rightarrow> (string \<times> qval) list" where
  "add_if_given req name params =
     (case map_of (args req) name of
        None \<Rightarrow> params
      | Some v \<Rightarrow> if v \<noteq> [] then AList.update name (QStr v) params else params)"

text \<open>
  \<^verbatim>\<open>
  page_size = int(request.args.get("pageSize", 50))
  offset = int(request.args.get("offset", 0))
  where = request.args.get("where")
  sort_by = request.args.get("sortBy")
  params = {"pageSize": page_size, "offset": offset}
  if where:
      params["where"] = where
  if sort_by:
      params["sortBy"] = sort_by
  url = f"{BACKENDLESS_BASE_URL}?{urlencode(params)}"
  \<close>
  A \<^verbatim>\<open>ValueError\<close> of \<^verbatim>\<open>int\<close> is not caught; \<open>pageSize\<close> is converted first.
\<close>

definition list_params :: "env \<Rightarrow> request \<Rightarrow> py_error + (string \<times> qval) list" where
  "list_params e req =
     (case int_arg e req ''pageSize'' 50 of
        None \<Rightarrow> Inl ValueError
      | Some page_size \<Rightarrow>
          (case int_arg e req ''offset'' 0 of
             None \<Rightarrow> Inl ValueError
           | Some offset \<Rightarrow>
               Inr (add_if_given req ''sortBy''
                     (add_if_given req ''where''
                        [(''pageSize'', QInt page_size), (''offset'', QInt offset)]))))"

definition get_request :: "config \<Rightarrow> string \<Rightarrow> outbound" where
  "get_request cfg u = \<lparr>meth = GET, url = u, headers = DEFAULT_HEADERS cfg, data = None\<rparr>"

definition list_users :: "config \<Rightarrow> env \<Rightarrow> request \<Rightarrow> result" where
  "list_users cfg e req =
     (case list_params e req of
        Inl err \<Rightarrow> (Uncaught err, [])
      | Inr params \<Rightarrow>
          relay e (get_request cfg (BACKENDLESS_BASE_URL cfg @ ''?'' @ urlencode params)) 200)"

definition get_user :: "config \<Rightarrow> env \<Rightarrow> string \<Rightarrow> result" where
  "get_user cfg e object_id =
     relay e (get_request cfg (BACKENDLESS_BASE_URL cfg @ ''/'' @ object_id)) 200"

text \<open>\<^verbatim>\<open>request.get_json(force=True) or {}\<close>, inside \<^verbatim>\<open>try ... except Exception\<close>.\<close>

definition incoming_of :: "request \<Rightarrow> json option" where
  "incoming_of req =
     (case get_json req of None \<Rightarrow> None | Some j \<Rightarrow> Some (if truthy j then j else JObj []))"

definition quoted :: "string \<Rightarrow> string" where
  "quoted s = [CHR 0x27] @ s @ [CHR 0x27]"

text \<open>
  \<^verbatim>\<open>
  try:
      incoming = request.get_json(force=True) or {}
  except Exception:
      abort(400, description="Invalid JSON body")
  payload = pick_user_fields(incoming)
  if "email" not in payload or "username" not in payload:
      abort(400, description="Fields 'email' and 'username' are required")
  resp = requests.post(BACKENDLESS_BASE_URL, headers=DEFAULT_HEADERS,
                       data=json.dumps(payload))
  if not resp.ok:
      return be_error(resp)
  return jsonify(resp.json()), 201
  \<close>
  \<open>pick_user_fields\<close> is called outside the \<^verbatim>\<open>try\<close>: what it raises escapes.
\<close>

definition create_user :: "config \<Rightarrow> env \<Rightarrow> request \<Rightarrow> result" where
  "create_user cfg e req =
     (case incoming_of req of
        None \<Rightarrow> (Abort 400 ''Invalid JSON body'', [])
      | Some incoming \<Rightarrow>
          (case pick_user_fields incoming of
             Inl err \<Rightarrow> (Uncaught err, [])
           | Inr payload \<Rightarrow>
               if map_of payload ''email'' = None \<or> map_of payload ''username'' = None
               then (Abort 400 (''Fields '' @ quoted ''email'' @ '' and '' @ quoted ''username''
                                @ '' are required''), [])
               else relay e \<lparr>meth = POST, url = BACKENDLESS_BASE_URL cfg,
                              headers = DEFAULT_HEADERS cfg, data = Some payload\<rparr> 201))"

text \<open>
  \<open>update_user\<close> serves both \<^verbatim>\<open>PUT\<close> and \<^verbatim>\<open>PATCH /users/<object_id>\<close>. It reads the body
  as \<open>create_user\<close> does, then
  \<^verbatim>\<open>
  if not payload:
      abort(400, description="No updatable fields provided")
  resp = requests.put(f"{BACKENDLESS_BASE_URL}/{object_id}", headers=DEFAULT_HEADERS,
                      data=json.dumps(payload))
  if not resp.ok:
      return be_error(resp)
  return jsonify(resp.json()), 200
  \<close>
\<close>

definition update_user :: "config \<Rightarrow> env \<Rightarrow> string \<Rightarrow> request \<Rightarrow> result" where
  "update_user cfg e object_id req =
     (case incoming_of req of
        None \<Rightarrow> (Abort 400 ''Invalid JSON body'', [])
      | Some incoming \<Rightarrow>
          (case pick_user_fields incoming of
             Inl err \<Rightarrow> (Uncaught err, [])
           | Inr payload \<Rightarrow>
               if payload = []
               then (Abort 400 ''No updatable fields provided'', [])
               else relay e \<lparr>meth = PUT, url = BACKENDLESS_BASE_URL cfg @ ''/'' @ object_id,
                              headers = DEFAULT_HEADERS cfg, data = Some payload\<rparr> 200))"

text \<open>
  \<^verbatim>\<open>
  resp = requests.delete(f"{BACKENDLESS_BASE_URL}/{object_id}", headers=DEFAULT_HEADERS)
  if resp.status_code not in (200, 204):
      return be_error(resp)
  return jsonify({"deleted": True, "objectId": object_id}), 200
  \<close>
\<close>

definition delete_user :: "config \<Rightarrow> env \<Rightarrow> string \<Rightarrow> result" where
  "delete_user cfg e object_id =
     (let q = \<lparr>meth = DELETE, url = BACKENDLESS_BASE_URL cfg @ ''/'' @ object_id,
               headers = DEFAULT_HEADERS cfg, data = None\<rparr>
      in case send e q of
           None \<Rightarrow> (Uncaught ConnectionError, [q])
         | Some resp \<Rightarrow>
             if status_code resp \<noteq> 200 \<and> status_code resp \<noteq> 204 then (be_error resp, [q])
             else (Reply (JObj [(''deleted'', JBool True), (''objectId'', JStr object_id)]) 200,
                   [q]))"

text \<open>
  \<^verbatim>\<open>where = f"email='{email}'"\<close>, then
  \<^verbatim>\<open>urlencode({'where': where, 'pageSize': 50, 'offset': 0})\<close>.
\<close>

definition find_params :: "string \<Rightarrow> string \<Rightarrow> (string \<times> qval) list" where
  "find_params field v =
     [(''where'', QStr (field @ ''='' @ quoted v)), (''pageSize'', QInt 50), (''offset'', QInt 0)]"

definition find_by_email :: "config \<Rightarrow> env \<Rightarrow> string \<Rightarrow> result" where
  "find_by_email cfg e email =
     relay e (get_request cfg
       (BACKENDLESS_BASE_URL cfg @ ''?'' @ urlencode (find_params ''email'' email))) 200"

definition find_by_username :: "config \<Rightarrow> env \<Rightarrow> string \<Rightarrow> result" where
  "find_by_username cfg e username =
     relay e (get_request cfg
       (BACKENDLESS_BASE_URL cfg @ ''?'' @ urlencode (find_params ''username'' username))) 200"

text \<open>
  The HTTP status the caller sees: the one returned or aborted with; Flask answers an
  escaped exception with 500.
\<close>

fun http_status :: "outcome \<Rightarrow> int" where
  "http_status (Reply body status) = status"
| "http_status (Abort code description) = code"
| "http_status (Uncaught err) = 500"

text \<open>
  What \<^verbatim>\<open>create_user\<close> and \<^verbatim>\<open>update_user\<close> hold in \<^verbatim>\<open>payload\<close> after their first two
  steps: nothing when the body is not JSON, else the result of \<open>pick_user_fields\<close>.
\<close>

definition filtered :: "request \<Rightarrow> (py_error + dict) option" where
  "filtered req = map_option pick_user_fields (incoming_of req)"

section \<open>Concrete requests and services\<close>

definition ex_cfg :: config where
  "ex_cfg = \<lparr>BACKENDLESS_BASE_URL = ''https://host/api/data/UsersDB'',
             APP_ID = None, API_KEY = None\<rparr>"

text \<open>A service that answers every call with \<open>resp\<close>; \<^verbatim>\<open>int\<close> knows one numeral.\<close>

definition ex_env :: "response \<Rightarrow> env" where
  "ex_env resp = \<lparr>int_of_str = (\<lambda>s. if s = ''7'' then Some 7 else None),
                  send = (\<lambda>q. Some resp)\<rparr>"

definition ex_record :: json where
  "ex_record = JObj [(''objectId'', JStr ''123''), (''email'', JStr ''a@x.com'')]"

definition resp_json :: "int \<Rightarrow> json \<Rightarrow> response" where
  "resp_json status j = \<lparr>status_code = status, text_of = ''(json)'', json_body = Some j\<rparr>"

definition resp_text :: "int \<Rightarrow> string \<Rightarrow> response" where
  "resp_text status t = \<lparr>status_code = status, text_of = t, json_body = None\<rparr>"

definition ex_body :: dict where
  "ex_body = [(''email'', JStr ''a@x.com''), (''username'', JStr ''a''),
              (''extra'', JStr ''drop-me'')]"

definition body_request :: "json \<Rightarrow> request" where
  "body_request j = \<lparr>args = [], get_json = Some j\<rparr>"

definition args_request :: "(string \<times> string) list \<Rightarrow> request" where
  "args_request a = \<lparr>args = a, get_json = None\<rparr>"

section \<open>Filtering\<close>

lemma pick_loop_obj:
  "\<exists>out'. pick_loop ks (JObj d) out = Inr out'
      \<and> map_of out' = map_of out ++ (map_of d |` set ks)
      \<and> (distinct (map fst out) \<longrightarrow> distinct (map fst out'))"
proof (induction ks arbitrary: out)
  case Nil
  then show ?case by simp
next
  case (Cons k ks)
  show ?case
  proof (cases "map_of d k")
    case None
    from Cons.IH [of out] obtain out' where
      "pick_loop ks (JObj d) out = Inr out'"
      "map_of out' = map_of out ++ (map_of d |` set ks)"
      "distinct (map fst out) \<longrightarrow> distinct (map fst out')" by blast
    moreover have "map_of d |` set (k # ks) = map_of d |` set ks"
      using None by (auto simp: restrict_map_def fun_eq_iff)
    ultimately show ?thesis using None by simp
  next
    case (Some v)
    from Cons.IH [of "AList.update k v out"] obtain out' where
      "pick_loop ks (JObj d) (AList.update k v out) = Inr out'"
      "map_of out' = map_of (AList.update k v out) ++ (map_of d |` set ks)"
      "distinct (map fst (AList.update k v out)) \<longrightarrow> distinct (map fst out')" by blast
    moreover have "map_of (AList.update k v out) ++ (map_of d |` set ks)
        = map_of out ++ (map_of d |` set (k # ks))"
      using Some
      by (auto simp: update_conv' restrict_map_def map_add_def fun_eq_iff split: option.splits)
    ultimately show ?thesis using Some by (simp add: distinct_update)
  qed
qed

lemma pick_user_fields_obj:
  "\<exists>p. pick_user_fields (JObj d) = Inr p \<and> map_of p = map_of d |` set allowed
       \<and> distinct (map fst p)"
  using pick_loop_obj [of allowed d "[]"] by (auto simp: pick_user_fields_def)

lemma relay_sent: "snd (relay e q code) = [q]"
  by (simp add: relay_def split: option.splits)

lemma set_allowed:
  "set allowed = {''email'', ''First Name'', ''Last Name'', ''ID'', ''password'', ''username''}"
  by (simp add: allowed_def)

lemma incoming_obj: "get_json req = Some (JObj d) \<Longrightarrow> incoming_of req = Some (JObj d)"
  by (cases d) (simp_all add: incoming_of_def)

lemma pick_loop_keys:
  "pick_loop ks j out = Inr out' \<Longrightarrow> fst ` set out' \<subseteq> fst ` set out \<union> set ks"
proof (induction ks arbitrary: out)
  case Nil
  then show ?case by simp
next
  case (Cons k ks)
  show ?case
  proof (cases "py_contains k j")
    case (Inl err)
    with Cons.prems show ?thesis by simp
  next
    case (Inr b)
    show ?thesis
    proof (cases b)
      case False
      with Inr Cons.prems have "pick_loop ks j out = Inr out'" by simp
      from Cons.IH [OF this] show ?thesis by auto
    next
      case True
      with Inr Cons.prems obtain v where
        "py_getitem j k = Inr v" "pick_loop ks j (AList.update k v out) = Inr out'"
        by (auto split: sum.splits)
      from Cons.IH [OF this(2)] show ?thesis by (auto simp: dom_update)
    qed
  qed
qed

lemma sent_payload:
  assumes "q \<in> set (snd (create_user cfg e req)) \<union> set (snd (update_user cfg e object_id req))"
  shows "\<exists>i p. incoming_of req = Some i \<and> pick_user_fields i = Inr p \<and> data q = Some p"
proof (cases "incoming_of req")
  case None
  with assms show ?thesis by (simp add: create_user_def update_user_def)
next
  case (Some i)
  show ?thesis
  proof (cases "pick_user_fields i")
    case (Inl err)
    with Some assms show ?thesis by (simp add: create_user_def update_user_def)
  next
    case (Inr p)
    with Some assms have "data q = Some p"
      by (auto simp: create_user_def update_user_def relay_sent split: if_splits)
    with Some Inr show ?thesis by simp
  qed
qed

text \<open>
  C1. Every request that \<open>create_user\<close> or \<open>update_user\<close> sends to the service
  carries a dict whose keys are all among the six allowed names, whatever the inbound
  body was; when the body is a JSON object \<open>d\<close>, that dict is \<open>d\<close> restricted to the
  allowed names: the allowed fields of \<open>d\<close> with their values unchanged, and nothing
  else. The loop of \<open>pick_user_fields\<close> returns this restriction in whatever order it
  visits the six names.
\<close>

theorem forwarded_payload_is_allow_list_restriction:
  "(\<forall>q \<in> set (snd (create_user cfg e req)) \<union> set (snd (update_user cfg e object_id req)).
      \<exists>p. data q = Some p
        \<and> fst ` set p \<subseteq> {''email'', ''First Name'', ''Last Name'', ''ID'', ''password'', ''username''}
        \<and> (\<forall>d. get_json req = Some (JObj d) \<longrightarrow>
              map_of p = map_of d |` {''email'', ''First Name'', ''Last Name'', ''ID'', ''password'', ''username''}))
   \<and> (\<forall>ks d. set ks = {''email'', ''First Name'', ''Last Name'', ''ID'', ''password'', ''username''} \<longrightarrow>
        (\<exists>out. pick_loop ks (JObj d) [] = Inr out
           \<and> map_of out = map_of d |` {''email'', ''First Name'', ''Last Name'', ''ID'', ''password'', ''username''}))"
proof (intro conjI allI impI ballI)
  fix ks :: "string list" and d
  assume "set ks = {''email'', ''First Name'', ''Last Name'', ''ID'', ''password'', ''username''}"
  then show "\<exists>out. pick_loop ks (JObj d) [] = Inr out
               \<and> map_of out = map_of d |` {''email'', ''First Name'', ''Last Name'', ''ID'', ''password'', ''username''}"
    using pick_loop_obj [of ks d "[]"] by auto
next
  fix q
  assume "q \<in> set (snd (create_user cfg e req)) \<union> set (snd (update_user cfg e object_id req))"
  from sent_payload [OF this] obtain i p where
    i: "incoming_of req = Some i" "pick_user_fields i = Inr p" "data q = Some p" by blast
  from i(2) have k: "fst ` set p \<subseteq> set allowed"
    using pick_loop_keys [of allowed i "[]" p] by (simp add: pick_user_fields_def)
  have "map_of p = map_of d |` set allowed" if "get_json req = Some (JObj d)" for d
    using pick_user_fields_obj [of d] incoming_obj [OF that] i by auto
  with k i(3) show "\<exists>p. data q = Some p
        \<and> fst ` set p \<subseteq> {''email'', ''First Name'', ''Last Name'', ''ID'', ''password'', ''username''}
        \<and> (\<forall>d. get_json req = Some (JObj d) \<longrightarrow>
              map_of p = map_of d |` {''email'', ''First Name'', ''Last Name'', ''ID'', ''password'', ''username''})"
    by (simp add: set_allowed)
qed

lemma ex_pick: "pick_user_fields (JObj ex_body) = Inr [(''email'', JStr ''a@x.com''), (''username'', JStr ''a'')]"
  by (simp add: pick_user_fields_def allowed_def ex_body_def)

lemma ex_create_sent: "snd (create_user ex_cfg (ex_env (resp_json 201 ex_record)) (body_request (JObj ex_body)))
   = [\<lparr>meth = POST, url = ''https://host/api/data/UsersDB'', headers = [(''Content-Type'', ''application/json'')],
       data = Some [(''email'', JStr ''a@x.com''), (''username'', JStr ''a'')]\<rparr>]"
proof -
  have t: "incoming_of (body_request (JObj ex_body)) = Some (JObj ex_body)"
    by (rule incoming_obj) (simp add: body_request_def)
  show ?thesis
    by (simp add: create_user_def t ex_pick relay_sent ex_cfg_def DEFAULT_HEADERS_def)
qed

theorem forwarded_payload_is_allow_list_restriction_witness:
  "(\<exists>out. pick_loop [''username'', ''ID'', ''password'', ''Last Name'', ''email'', ''First Name''] (JObj ex_body) [] = Inr out
        \<and> map_of out ''extra'' = None \<and> map_of out ''email'' = Some (JStr ''a@x.com''))
   \<and> (\<exists>q p. q \<in> set (snd (create_user ex_cfg (ex_env (resp_json 201 ex_record)) (body_request (JObj ex_body))))
        \<and> get_json (body_request (JObj ex_body)) = Some (JObj ex_body)
        \<and> data q = Some p \<and> ''extra'' \<notin> fst ` set p
        \<and> map_of p ''extra'' = None \<and> map_of p ''username'' = Some (JStr ''a''))"
proof -
  let ?req = "body_request (JObj ex_body)"
  let ?e = "ex_env (resp_json 201 ex_record)"
  let ?A = "{''email'', ''First Name'', ''Last Name'', ''ID'', ''password'', ''username''}"
  have h: "get_json ?req = Some (JObj ex_body)" by (simp add: body_request_def)
  note t = forwarded_payload_is_allow_list_restriction [of ex_cfg ?e ?req "''42''"]
  have s: "set [''username'', ''ID'', ''password'', ''Last Name'', ''email'', ''First Name''] = ?A"
    by auto
  from conjunct2 [OF t, rule_format, OF s, of ex_body] obtain out where
    o: "pick_loop [''username'', ''ID'', ''password'', ''Last Name'', ''email'', ''First Name''] (JObj ex_body) [] = Inr out"
       "map_of out = map_of ex_body |` ?A" by (elim exE conjE)
  have a: "(map_of ex_body |` ?A) ''extra'' = None" "(map_of ex_body |` ?A) ''email'' = Some (JStr ''a@x.com'')"
     "(map_of ex_body |` ?A) ''username'' = Some (JStr ''a'')"
    by (simp_all add: ex_body_def restrict_map_def)
  let ?q = "\<lparr>meth = POST, url = ''https://host/api/data/UsersDB'', headers = [(''Content-Type'', ''application/json'')],
       data = Some [(''email'', JStr ''a@x.com''), (''username'', JStr ''a'')]\<rparr>"
  have m: "?q \<in> set (snd (create_user ex_cfg ?e ?req))" by (simp add: ex_create_sent)
  then have m': "?q \<in> set (snd (create_user ex_cfg ?e ?req)) \<union> set (snd (update_user ex_cfg ?e ''42'' ?req))"
    by (rule UnI1)
  from bspec [OF conjunct1 [OF t] m'] obtain p where p: "data ?q = Some p" "fst ` set p \<subseteq> ?A"
    "\<forall>d. get_json ?req = Some (JObj d) \<longrightarrow> map_of p = map_of d |` ?A" by (elim exE conjE)
  from p(3) [rule_format, OF h] have pm: "map_of p = map_of ex_body |` ?A" .
  have "''extra'' \<notin> ?A" by simp
  with p(2) have n: "''extra'' \<notin> fst ` set p" by (rule contra_subsetD)
  have 1: "\<exists>out. pick_loop [''username'', ''ID'', ''password'', ''Last Name'', ''email'', ''First Name''] (JObj ex_body) [] = Inr out
        \<and> map_of out ''extra'' = None \<and> map_of out ''email'' = Some (JStr ''a@x.com'')"
  proof (intro exI conjI)
    show "pick_loop [''username'', ''ID'', ''password'', ''Last Name'', ''email'', ''First Name''] (JObj ex_body) [] = Inr out"
      by (rule o(1))
    show "map_of out ''extra'' = None" unfolding o(2) by (rule a(1))
    show "map_of out ''email'' = Some (JStr ''a@x.com'')" unfolding o(2) by (rule a(2))
  qed
  have 2: "\<exists>q p. q \<in> set (snd (create_user ex_cfg ?e ?req))
        \<and> get_json ?req = Some (JObj ex_body)
        \<and> data q = Some p \<and> ''extra'' \<notin> fst ` set p
        \<and> map_of p ''extra'' = None \<and> map_of p ''username'' = Some (JStr ''a'')"
  proof (intro exI conjI)
    show "?q \<in> set (snd (create_user ex_cfg ?e ?req))" by (rule m)
    show "get_json ?req = Some (JObj ex_body)" by (rule h)
    show "data ?q = Some p" by (rule p(1))
    show "''extra'' \<notin> fst ` set p" by (rule n)
    show "map_of p ''extra'' = None" unfolding pm by (rule a(1))
    show "map_of p ''username'' = Some (JStr ''a'')" unfolding pm by (rule a(3))
  qed
  from 1 2 show ?thesis by (rule conjI)
qed

section \<open>Create and Update\<close>

lemma relay_ok:
  "send e q = Some r \<Longrightarrow> ok r \<Longrightarrow> json_body r = Some j \<Longrightarrow> relay e q code = (Reply j code, [q])"
  by (simp add: relay_def)

lemma relay_not_ok:
  "send e q = Some r \<Longrightarrow> \<not> ok r \<Longrightarrow> relay e q code = (be_error r, [q])"
  by (simp add: relay_def)

lemma filtered_cases:
  "(get_json req = None \<and> filtered req = None \<and> incoming_of req = None)
   \<or> (\<exists>i x. incoming_of req = Some i \<and> get_json req \<noteq> None \<and> pick_user_fields i = x
           \<and> filtered req = Some x)"
  by (cases "get_json req") (simp_all add: filtered_def incoming_of_def)

lemma filtered_object:
  "get_json req = Some (JObj d) \<Longrightarrow>
     \<exists>p. filtered req = Some (Inr p) \<and> map_of p = map_of d |` set allowed"
  using pick_user_fields_obj [of d] by (auto simp: filtered_def incoming_obj)

lemma filtered_falsy:
  "get_json req = Some j \<Longrightarrow> \<not> truthy j \<Longrightarrow> filtered req = Some (Inr [])"
  by (simp add: filtered_def incoming_of_def pick_user_fields_def allowed_def)

text \<open>
  What \<open>create_user\<close> does on every request. The caller gets HTTP 400 with nothing sent
  to the service if and only if the body is not valid JSON or \<open>email\<close> or \<open>username\<close>
  is missing from the filtered payload; when the filtering returns a payload with both
  keys, exactly one POST to the endpoint carries it, and when the service answers with
  a success status and a body that parses as JSON, that JSON is returned with status
  201. When the filtering raises, the exception escapes: neither of the two.
\<close>

lemma create_user_rejects_or_forwards:
  "((http_status (fst (create_user cfg e req)) = 400 \<and> snd (create_user cfg e req) = [])
           \<longleftrightarrow> (get_json req = None
                \<or> (\<exists>p. filtered req = Some (Inr p)
                      \<and> (map_of p ''email'' = None \<or> map_of p ''username'' = None))))
       \<and> (\<forall>p. filtered req = Some (Inr p) \<and> map_of p ''email'' \<noteq> None
               \<and> map_of p ''username'' \<noteq> None \<longrightarrow>
             snd (create_user cfg e req)
               = [\<lparr>meth = POST, url = BACKENDLESS_BASE_URL cfg,
                   headers = DEFAULT_HEADERS cfg, data = Some p\<rparr>]
           \<and> (\<forall>r j. send e \<lparr>meth = POST, url = BACKENDLESS_BASE_URL cfg,
                             headers = DEFAULT_HEADERS cfg, data = Some p\<rparr> = Some r
                      \<and> ok r \<and> json_body r = Some j \<longrightarrow>
                    fst (create_user cfg e req) = Reply j 201))"
proof -
  from filtered_cases [of req] show ?thesis
  proof (elim disjE conjE exE)
    assume "get_json req = None" "filtered req = None" "incoming_of req = None"
    then show ?thesis by (simp add: create_user_def)
  next
    fix i x
    assume i: "incoming_of req = Some i" "get_json req \<noteq> None" "pick_user_fields i = x"
      "filtered req = Some x"
    show ?thesis
    proof (cases x)
      case (Inl err)
      with i show ?thesis by (simp add: create_user_def)
    next
      case p: (Inr p)
      show ?thesis
      proof (cases "map_of p ''email'' = None \<or> map_of p ''username'' = None")
        case True
        with i p show ?thesis by (simp add: create_user_def)
      next
        case False
        with i p show ?thesis
          by (auto simp: create_user_def relay_sent relay_ok)
      qed
    qed
  qed
qed

text \<open>
  C2. Create is meant to answer every body that is valid JSON either with 400 (a
  required field is missing after filtering) or by forwarding the filtered payload.
  On the valid JSON body \<open>5\<close> it does neither: \<^verbatim>\<open>"email" in 5\<close> raises \<^verbatim>\<open>TypeError\<close>
  inside \<open>pick_user_fields\<close>, outside the \<^verbatim>\<open>try\<close>, so the caller gets 500 and nothing is
  sent. Other bodies that are not objects are rejected with 400 as the claim says:
  \<open>"hello"\<close> is.
\<close>

theorem create_user_escapes_on_number_body:
  "get_json (body_request (JInt 5)) = Some (JInt 5)
   \<and> create_user ex_cfg (ex_env (resp_json 201 ex_record)) (body_request (JInt 5))
       = (Uncaught TypeError, [])
   \<and> http_status (Uncaught TypeError) = 500
   \<and> create_user ex_cfg (ex_env (resp_json 201 ex_record)) (body_request (JStr ''hello''))
       = (Abort 400 (''Fields '' @ quoted ''email'' @ '' and '' @ quoted ''username''
                     @ '' are required''), [])"
  by (simp add: create_user_def incoming_of_def body_request_def pick_user_fields_def allowed_def)

text \<open>
  What \<open>update_user\<close> does on every request. The caller gets HTTP 400 with nothing sent
  to the service if and only if the body is not valid JSON or the filtered payload is
  empty; when the filtering returns a non-empty payload, exactly one PUT to
  \<open>endpoint/id\<close> carries it, and when the service answers with a success status and a
  body that parses as JSON, that JSON is returned with status 200. When the filtering
  raises, the exception escapes: neither of the two.
\<close>

lemma update_user_rejects_or_forwards:
  "((http_status (fst (update_user cfg e object_id req)) = 400
            \<and> snd (update_user cfg e object_id req) = [])
           \<longleftrightarrow> (get_json req = None \<or> filtered req = Some (Inr [])))
       \<and> (\<forall>p. filtered req = Some (Inr p) \<and> p \<noteq> [] \<longrightarrow>
             snd (update_user cfg e object_id req)
               = [\<lparr>meth = PUT, url = BACKENDLESS_BASE_URL cfg @ ''/'' @ object_id,
                   headers = DEFAULT_HEADERS cfg, data = Some p\<rparr>]
           \<and> (\<forall>r j. send e \<lparr>meth = PUT, url = BACKENDLESS_BASE_URL cfg @ ''/'' @ object_id,
                             headers = DEFAULT_HEADERS cfg, data = Some p\<rparr> = Some r
                      \<and> ok r \<and> json_body r = Some j \<longrightarrow>
                    fst (update_user cfg e object_id req) = Reply j 200))"
proof -
  from filtered_cases [of req] show ?thesis
  proof (elim disjE conjE exE)
    assume "get_json req = None" "filtered req = None" "incoming_of req = None"
    then show ?thesis by (simp add: update_user_def)
  next
    fix i x
    assume i: "incoming_of req = Some i" "get_json req \<noteq> None" "pick_user_fields i = x"
      "filtered req = Some x"
    show ?thesis
    proof (cases x)
      case (Inl err)
      with i show ?thesis by (simp add: update_user_def)
    next
      case p: (Inr p)
      show ?thesis
      proof (cases "p = []")
        case True
        with i p show ?thesis by (simp add: update_user_def)
      next
        case False
        with i p show ?thesis
          by (auto simp: update_user_def relay_sent relay_ok)
      qed
    qed
  qed
qed

text \<open>
  C3. Update is meant to answer every body that is valid JSON either with 400 (the
  filtered payload is empty) or by forwarding the filtered payload. On the valid JSON
  body \<open>true\<close> it does neither: \<^verbatim>\<open>"email" in True\<close> raises \<^verbatim>\<open>TypeError\<close> inside
  \<open>pick_user_fields\<close>, outside the \<^verbatim>\<open>try\<close>, so the caller gets 500 and nothing is sent.
  Other bodies that are not objects are rejected with 400 as the claim says: the array
  \<open>["x", 1]\<close> is.
\<close>

theorem update_user_escapes_on_true_body:
  "get_json (body_request (JBool True)) = Some (JBool True)
   \<and> update_user ex_cfg (ex_env (resp_json 200 ex_record)) ''123'' (body_request (JBool True))
       = (Uncaught TypeError, [])
   \<and> http_status (Uncaught TypeError) = 500
   \<and> update_user ex_cfg (ex_env (resp_json 200 ex_record)) ''123''
        (body_request (JArr [JStr ''x'', JInt 1]))
       = (Abort 400 ''No updatable fields provided'', [])"
  by (simp add: update_user_def incoming_of_def body_request_def pick_user_fields_def allowed_def)

text \<open>
  C10. A body that is the JSON literal \<open>null\<close> is replaced by the empty object before
  filtering. \<open>create_user\<close> then aborts with 400 for the missing required fields and
  \<open>update_user\<close> aborts with 400 for the empty payload; neither calls the service.
\<close>

theorem null_body_is_rejected:
  "incoming_of (req\<lparr>get_json := Some JNull\<rparr>) = Some (JObj [])
   \<and> create_user cfg e (req\<lparr>get_json := Some JNull\<rparr>)
       = (Abort 400 (''Fields '' @ quoted ''email'' @ '' and '' @ quoted ''username''
                     @ '' are required''), [])
   \<and> update_user cfg e object_id (req\<lparr>get_json := Some JNull\<rparr>)
       = (Abort 400 ''No updatable fields provided'', [])
   \<and> http_status (fst (create_user cfg e (req\<lparr>get_json := Some JNull\<rparr>))) = 400
   \<and> http_status (fst (update_user cfg e object_id (req\<lparr>get_json := Some JNull\<rparr>))) = 400"
  by (simp add: incoming_of_def create_user_def update_user_def pick_user_fields_def allowed_def)

theorem null_body_is_rejected_witness:
  "create_user ex_cfg (ex_env (resp_json 201 ex_record)) (body_request JNull)
       = (Abort 400 (''Fields '' @ quoted ''email'' @ '' and '' @ quoted ''username''
                     @ '' are required''), [])
   \<and> update_user ex_cfg (ex_env (resp_json 200 ex_record)) ''123'' (body_request JNull)
       = (Abort 400 ''No updatable fields provided'', [])"
  using null_body_is_rejected [of "body_request JNull" ex_cfg "ex_env (resp_json 201 ex_record)"]
    null_body_is_rejected [of "body_request JNull" ex_cfg "ex_env (resp_json 200 ex_record)" "''123''"]
  by (simp add: body_request_def)

section \<open>Error envelope\<close>

lemma be_error_envelope:
  "be_error r =
     Reply (JObj [(''error'', JBool True), (''status'', JInt (status_code r)),
                  (''backendless'',
                   case json_body r of
                     Some j \<Rightarrow> j
                   | None \<Rightarrow> JObj [(''message'', JStr (if text_of r = [] then ''Backendless error''
                                                        else text_of r))])])
           (status_code r)"
  by (simp add: be_error_def split: option.splits)

lemma not_ok_status: "\<not> ok r \<Longrightarrow> status_code r \<noteq> 200 \<and> status_code r \<noteq> 204"
  by (auto simp: ok_def)

lemma list_users_not_ok:
  "snd (list_users cfg e req) = [q] \<Longrightarrow> send e q = Some r \<Longrightarrow> \<not> ok r \<Longrightarrow>
     fst (list_users cfg e req) = be_error r"
  by (auto simp: list_users_def relay_sent relay_not_ok split: sum.splits)

lemma create_user_not_ok:
  "snd (create_user cfg e req) = [q] \<Longrightarrow> send e q = Some r \<Longrightarrow> \<not> ok r \<Longrightarrow>
     fst (create_user cfg e req) = be_error r"
  by (auto simp: create_user_def relay_sent relay_not_ok split: sum.splits option.splits if_splits)

lemma update_user_not_ok:
  "snd (update_user cfg e i req) = [q] \<Longrightarrow> send e q = Some r \<Longrightarrow> \<not> ok r \<Longrightarrow>
     fst (update_user cfg e i req) = be_error r"
  by (auto simp: update_user_def relay_sent relay_not_ok split: sum.splits option.splits if_splits)

lemma delete_user_not_ok:
  "snd (delete_user cfg e i) = [q] \<Longrightarrow> send e q = Some r \<Longrightarrow> \<not> ok r \<Longrightarrow>
     fst (delete_user cfg e i) = be_error r"
  by (auto simp: delete_user_def Let_def dest: not_ok_status split: option.splits if_splits)

lemma relay_handlers_not_ok:
  "snd (relay e q0 c) = [q] \<Longrightarrow> send e q = Some r \<Longrightarrow> \<not> ok r \<Longrightarrow>
     fst (relay e q0 c) = be_error r"
  by (auto simp: relay_sent relay_not_ok)

text \<open>
  C4, as the code has it. Whenever one of the seven handlers has called the service and
  the response is not a success (status 400 to 599), the handler returns the envelope
  \<open>{error: true, status: s, backendless: b}\<close> with HTTP status \<open>s\<close>, the status of
  the external response; \<open>b\<close> is the response parsed as JSON when that succeeds, else
  \<open>{message: t}\<close> where \<open>t\<close> is the raw response text when it is not empty and the
  fixed string \<open>Backendless error\<close> when it is.
\<close>

theorem external_failure_is_mirrored:
  assumes "res \<in> {list_users cfg e req, get_user cfg e object_id, create_user cfg e req,
                   update_user cfg e object_id req, delete_user cfg e object_id,
                   find_by_email cfg e v, find_by_username cfg e v}"
    and "snd res = [q]" and "send e q = Some r" and "\<not> ok r"
  shows "fst res =
     Reply (JObj [(''error'', JBool True), (''status'', JInt (status_code r)),
                  (''backendless'',
                   case json_body r of
                     Some j \<Rightarrow> j
                   | None \<Rightarrow> JObj [(''message'', JStr (if text_of r = [] then ''Backendless error''
                                                        else text_of r))])])
           (status_code r)
     \<and> http_status (fst res) = status_code r"
proof -
  from assms have "fst res = be_error r"
    by (auto simp: get_user_def find_by_email_def find_by_username_def
             intro: list_users_not_ok create_user_not_ok update_user_not_ok delete_user_not_ok
                    relay_handlers_not_ok)
  then show ?thesis by (simp add: be_error_envelope)
qed

theorem external_failure_is_mirrored_witness:
  "snd (get_user ex_cfg (ex_env (resp_text 404 ''Not Found'')) ''123'')
     = [get_request ex_cfg ''https://host/api/data/UsersDB/123'']
   \<and> send (ex_env (resp_text 404 ''Not Found'')) (get_request ex_cfg ''https://host/api/data/UsersDB/123'')
       = Some (resp_text 404 ''Not Found'')
   \<and> \<not> ok (resp_text 404 ''Not Found'')
   \<and> fst (get_user ex_cfg (ex_env (resp_text 404 ''Not Found'')) ''123'')
       = Reply (JObj [(''error'', JBool True), (''status'', JInt 404),
                      (''backendless'', JObj [(''message'', JStr ''Not Found'')])]) 404"
proof -
  let ?r = "resp_text 404 ''Not Found''"
  let ?e = "ex_env ?r"
  let ?q = "get_request ex_cfg ''https://host/api/data/UsersDB/123''"
  let ?res = "get_user ex_cfg ?e ''123''"
  have m: "?res \<in> {list_users ex_cfg ?e (args_request []), get_user ex_cfg ?e ''123'',
                    create_user ex_cfg ?e (args_request []),
                    update_user ex_cfg ?e ''123'' (args_request []), delete_user ex_cfg ?e ''123'',
                    find_by_email ex_cfg ?e ''a'', find_by_username ex_cfg ?e ''a''}"
    by simp
  have s: "snd ?res = [?q]" by (simp add: get_user_def relay_sent ex_cfg_def)
  have a: "send ?e ?q = Some ?r" by (simp add: ex_env_def)
  have n: "\<not> ok ?r" by (simp add: ok_def resp_text_def)
  from external_failure_is_mirrored [OF m s a n]
  have "fst ?res = Reply (JObj [(''error'', JBool True), (''status'', JInt 404),
                      (''backendless'', JObj [(''message'', JStr ''Not Found'')])]) 404"
    by (simp add: resp_text_def)
  with s a n show ?thesis by simp
qed

theorem empty_error_text_counterexample:
  "text_of (resp_text 500 []) = []
   \<and> json_body (resp_text 500 []) = None
   \<and> be_error (resp_text 500 [])
       = Reply (JObj [(''error'', JBool True), (''status'', JInt 500),
                      (''backendless'', JObj [(''message'', JStr ''Backendless error'')])]) 500
   \<and> fst (get_user ex_cfg (ex_env (resp_text 500 [])) ''123'') = be_error (resp_text 500 [])"
  by (simp add: be_error_def resp_text_def get_user_def relay_def ex_env_def ok_def)

section \<open>Delete\<close>

text \<open>
  C5. When the service answers the DELETE call, \<open>delete_user\<close> returns
  \<open>{deleted: true, objectId: id}\<close> with status 200 if and only if the external status
  is 200 or 204; for every other external status, success codes such as 201 or 202
  included, it returns the error envelope of \<open>be_error\<close> with the external status. In
  both cases exactly one DELETE to \<open>endpoint/id\<close> was sent.
\<close>

theorem delete_user_normalises_200_and_204:
  assumes "send e \<lparr>meth = DELETE, url = BACKENDLESS_BASE_URL cfg @ ''/'' @ object_id,
                   headers = DEFAULT_HEADERS cfg, data = None\<rparr> = Some r"
  shows "(fst (delete_user cfg e object_id)
            = Reply (JObj [(''deleted'', JBool True), (''objectId'', JStr object_id)]) 200
          \<longleftrightarrow> status_code r = 200 \<or> status_code r = 204)
       \<and> (status_code r \<noteq> 200 \<and> status_code r \<noteq> 204 \<longrightarrow>
            fst (delete_user cfg e object_id) = be_error r
          \<and> http_status (fst (delete_user cfg e object_id)) = status_code r)
       \<and> snd (delete_user cfg e object_id)
            = [\<lparr>meth = DELETE, url = BACKENDLESS_BASE_URL cfg @ ''/'' @ object_id,
                headers = DEFAULT_HEADERS cfg, data = None\<rparr>]"
  using assms by (simp add: delete_user_def Let_def be_error_envelope)

theorem delete_user_normalises_200_and_204_witness:
  "fst (delete_user ex_cfg (ex_env (resp_text 204 [])) ''123'')
     = Reply (JObj [(''deleted'', JBool True), (''objectId'', JStr ''123'')]) 200
   \<and> fst (delete_user ex_cfg (ex_env (resp_json 202 (JInt 1))) ''123'')
     = Reply (JObj [(''error'', JBool True), (''status'', JInt 202), (''backendless'', JInt 1)]) 202"
proof -
  let ?q = "\<lparr>meth = DELETE, url = BACKENDLESS_BASE_URL ex_cfg @ ''/'' @ ''123'',
             headers = DEFAULT_HEADERS ex_cfg, data = None\<rparr>"
  have a: "send (ex_env (resp_text 204 [])) ?q = Some (resp_text 204 [])"
    by (simp add: ex_env_def)
  have b: "send (ex_env (resp_json 202 (JInt 1))) ?q = Some (resp_json 202 (JInt 1))"
    by (simp add: ex_env_def)
  have c: "status_code (resp_text 204 []) = 204" by (simp add: resp_text_def)
  have d: "status_code (resp_json 202 (JInt 1)) \<noteq> 200 \<and> status_code (resp_json 202 (JInt 1)) \<noteq> 204"
    by (simp add: resp_json_def)
  from delete_user_normalises_200_and_204 [OF a] c
  have 1: "fst (delete_user ex_cfg (ex_env (resp_text 204 [])) ''123'')
     = Reply (JObj [(''deleted'', JBool True), (''objectId'', JStr ''123'')]) 200" by simp
  from delete_user_normalises_200_and_204 [OF b] d
  have "fst (delete_user ex_cfg (ex_env (resp_json 202 (JInt 1))) ''123'') = be_error (resp_json 202 (JInt 1))"
    by blast
  then have 2: "fst (delete_user ex_cfg (ex_env (resp_json 202 (JInt 1))) ''123'')
     = Reply (JObj [(''error'', JBool True), (''status'', JInt 202), (''backendless'', JInt 1)]) 202"
    by (simp add: be_error_def resp_json_def)
  from 1 2 show ?thesis by simp
qed

section \<open>List and the finders\<close>

lemma quote_plus_append: "quote_plus (a @ b) = quote_plus a @ quote_plus b"
  by (simp add: quote_plus_def)

lemma digits_50: "digits 50 = ''50''"
  by (simp add: digits.simps digit_char_def)

lemma digits_0: "digits 0 = ''0''"
  by (simp add: digits.simps digit_char_def)

lemma urlencode_find_params:
  "urlencode (find_params field v)
     = ''where='' @ quote_plus field @ ''%3D%27'' @ quote_plus v @ ''%27&pageSize=50&offset=0''"
  by (simp add: urlencode_def find_params_def quoted_def quote_plus_append digits_50 digits_0)
     (simp add: quote_plus_def quote_char_def digit_char_def)

lemma urlencode_default: "urlencode [(''pageSize'', QInt 50), (''offset'', QInt 0)] = ''pageSize=50&offset=0''"
  by (simp add: urlencode_def digits_50 digits_0) (simp add: quote_plus_def quote_char_def)

lemma list_params_ok:
  "int_arg e req ''pageSize'' 50 = Some n \<Longrightarrow> int_arg e req ''offset'' 0 = Some m \<Longrightarrow>
   list_params e req =
     Inr ([(''pageSize'', QInt n), (''offset'', QInt m)]
          @ (case map_of (args req) ''where'' of
               None \<Rightarrow> [] | Some w \<Rightarrow> if w \<noteq> [] then [(''where'', QStr w)] else [])
          @ (case map_of (args req) ''sortBy'' of
               None \<Rightarrow> [] | Some s \<Rightarrow> if s \<noteq> [] then [(''sortBy'', QStr s)] else []))"
  by (simp add: list_params_def add_if_given_def split: option.splits)

lemma list_users_sent:
  "list_params e req = Inr ps \<Longrightarrow>
   snd (list_users cfg e req)
     = [get_request cfg (BACKENDLESS_BASE_URL cfg @ ''?'' @ urlencode ps)]"
  by (simp add: list_users_def relay_sent)

lemma quote_char_digit: "d < 10 \<Longrightarrow> quote_char (digit_char d) = [digit_char d]"
proof -
  assume "d < 10"
  then have "d \<in> {0, 1, 2, 3, 4, 5, 6, 7, 8, 9}" by auto
  then show ?thesis by (auto simp: quote_char_def digit_char_def)
qed

lemma quote_plus_digits: "quote_plus (digits k) = digits k"
proof (induction k rule: digits.induct)
  case (1 n)
  show ?case
  proof (cases "n < 10")
    case True
    then show ?thesis
      by (subst (1 2) digits.simps) (simp add: quote_plus_def quote_char_digit)
  next
    case False
    with 1 have "quote_plus (digits (n div 10)) = digits (n div 10)" by simp
    moreover have "quote_plus [digit_char (n mod 10)] = [digit_char (n mod 10)]"
      by (simp add: quote_plus_def quote_char_digit)
    ultimately show ?thesis using False
      by (subst (1 2) digits.simps) (simp add: quote_plus_append)
  qed
qed

lemma quote_plus_py_int: "quote_plus (py_str (QInt n)) = py_str (QInt n)"
proof -
  have "quote_plus (CHR ''-'' # xs) = CHR ''-'' # quote_plus xs" for xs
    by (simp add: quote_plus_def quote_char_def)
  then show ?thesis by (simp add: quote_plus_digits)
qed

lemma quote_plus_keys:
  "quote_plus ''pageSize'' = ''pageSize''" "quote_plus ''offset'' = ''offset''"
  "quote_plus ''where'' = ''where''" "quote_plus ''sortBy'' = ''sortBy''"
  by (simp_all add: quote_plus_def quote_char_def)

lemma urlencode_list_params:
  "urlencode ([(''pageSize'', QInt n), (''offset'', QInt m)]
          @ (case wh of
               None \<Rightarrow> [] | Some w \<Rightarrow> if w \<noteq> [] then [(''where'', QStr w)] else [])
          @ (case sb of
               None \<Rightarrow> [] | Some s \<Rightarrow> if s \<noteq> [] then [(''sortBy'', QStr s)] else []))
   = ''pageSize='' @ py_str (QInt n) @ ''&offset='' @ py_str (QInt m)
     @ (case wh of
          None \<Rightarrow> [] | Some w \<Rightarrow> if w \<noteq> [] then ''&where='' @ quote_plus w else [])
     @ (case sb of
          None \<Rightarrow> [] | Some s \<Rightarrow> if s \<noteq> [] then ''&sortBy='' @ quote_plus s else [])"
  by (simp add: urlencode_def quote_plus_py_int quote_plus_keys del: py_str.simps(2)
           split: option.splits)

text \<open>
  C6, as the code has it. \<open>list_users\<close> called with no query parameters sends one GET
  whose URL is \<open>endpoint?pageSize=50&offset=0\<close>. Whenever \<open>pageSize\<close> and \<open>offset\<close> are
  absent or parse as integers, it sends one GET whose URL is the endpoint followed by
  \<open>?pageSize=n&offset=m\<close>, then \<open>&where=\<close> and the URL-encoded literal value of
  \<open>where\<close> exactly when \<open>where\<close> was supplied with a non-empty value, then
  \<open>&sortBy=\<close> and the URL-encoded literal value of \<open>sortBy\<close> exactly when \<open>sortBy\<close> was
  supplied with a non-empty value.
\<close>

theorem list_users_query:
  "(args req = [] \<longrightarrow>
      snd (list_users cfg e req)
        = [\<lparr>meth = GET, url = BACKENDLESS_BASE_URL cfg @ ''?pageSize=50&offset=0'',
            headers = DEFAULT_HEADERS cfg, data = None\<rparr>])
   \<and> (\<forall>n m. int_arg e req ''pageSize'' 50 = Some n \<and> int_arg e req ''offset'' 0 = Some m \<longrightarrow>
        snd (list_users cfg e req)
          = [\<lparr>meth = GET,
              url = BACKENDLESS_BASE_URL cfg @ ''?pageSize='' @ py_str (QInt n)
                    @ ''&offset='' @ py_str (QInt m)
                    @ (case map_of (args req) ''where'' of
                         None \<Rightarrow> []
                       | Some w \<Rightarrow> if w \<noteq> [] then ''&where='' @ quote_plus w else [])
                    @ (case map_of (args req) ''sortBy'' of
                         None \<Rightarrow> []
                       | Some s \<Rightarrow> if s \<noteq> [] then ''&sortBy='' @ quote_plus s else []),
              headers = DEFAULT_HEADERS cfg, data = None\<rparr>])"
proof (intro conjI impI allI)
  assume a: "args req = []"
  then have "int_arg e req ''pageSize'' 50 = Some 50" "int_arg e req ''offset'' 0 = Some 0"
    by (simp_all add: int_arg_def)
  from list_params_ok [OF this] a
  have "list_params e req = Inr [(''pageSize'', QInt 50), (''offset'', QInt 0)]" by simp
  from list_users_sent [OF this]
  show "snd (list_users cfg e req)
        = [\<lparr>meth = GET, url = BACKENDLESS_BASE_URL cfg @ ''?pageSize=50&offset=0'',
            headers = DEFAULT_HEADERS cfg, data = None\<rparr>]"
    by (simp add: urlencode_default get_request_def)
next
  fix n m
  assume "int_arg e req ''pageSize'' 50 = Some n \<and> int_arg e req ''offset'' 0 = Some m"
  then have "int_arg e req ''pageSize'' 50 = Some n" "int_arg e req ''offset'' 0 = Some m"
    by simp_all
  from list_users_sent [OF list_params_ok [OF this]]
  show "snd (list_users cfg e req)
          = [\<lparr>meth = GET,
              url = BACKENDLESS_BASE_URL cfg @ ''?pageSize='' @ py_str (QInt n)
                    @ ''&offset='' @ py_str (QInt m)
                    @ (case map_of (args req) ''where'' of
                         None \<Rightarrow> []
                       | Some w \<Rightarrow> if w \<noteq> [] then ''&where='' @ quote_plus w else [])
                    @ (case map_of (args req) ''sortBy'' of
                         None \<Rightarrow> []
                       | Some s \<Rightarrow> if s \<noteq> [] then ''&sortBy='' @ quote_plus s else []),
              headers = DEFAULT_HEADERS cfg, data = None\<rparr>]"
    unfolding urlencode_list_params by (simp add: get_request_def del: py_str.simps(2))
qed

theorem list_users_query_witness:
  "snd (list_users ex_cfg (ex_env (resp_json 200 (JArr []))) (args_request []))
     = [\<lparr>meth = GET, url = ''https://host/api/data/UsersDB?pageSize=50&offset=0'',
         headers = [(''Content-Type'', ''application/json'')], data = None\<rparr>]
   \<and> snd (list_users ex_cfg (ex_env (resp_json 200 (JArr [])))
          (args_request [(''where'', ''username='' @ quoted ''leo''), (''pageSize'', ''7'')]))
     = [\<lparr>meth = GET,
         url = ''https://host/api/data/UsersDB?pageSize=7&offset=0&where=username%3D%27leo%27'',
         headers = [(''Content-Type'', ''application/json'')], data = None\<rparr>]"
proof -
  let ?e = "ex_env (resp_json 200 (JArr []))"
  let ?r0 = "args_request []"
  let ?r1 = "args_request [(''where'', ''username='' @ quoted ''leo''), (''pageSize'', ''7'')]"
  have a: "args ?r0 = []" by (simp add: args_request_def)
  have b: "int_arg ?e ?r1 ''pageSize'' 50 = Some 7 \<and> int_arg ?e ?r1 ''offset'' 0 = Some 0"
    by (simp add: int_arg_def args_request_def ex_env_def)
  have w: "map_of (args ?r1) ''where'' = Some (''username='' @ quoted ''leo'')"
    "map_of (args ?r1) ''sortBy'' = None"
    by (simp_all add: args_request_def)
  from conjunct1 [OF list_users_query [of ?r0 ex_cfg ?e], rule_format, OF a]
  have 1: "snd (list_users ex_cfg ?e ?r0)
     = [\<lparr>meth = GET, url = ''https://host/api/data/UsersDB?pageSize=50&offset=0'',
         headers = [(''Content-Type'', ''application/json'')], data = None\<rparr>]"
    by (simp add: ex_cfg_def DEFAULT_HEADERS_def)
  from conjunct2 [OF list_users_query [of ?r1 ex_cfg ?e], rule_format, OF b]
  have 2: "snd (list_users ex_cfg ?e ?r1)
     = [\<lparr>meth = GET,
         url = ''https://host/api/data/UsersDB?pageSize=7&offset=0&where=username%3D%27leo%27'',
         headers = [(''Content-Type'', ''application/json'')], data = None\<rparr>]"
    unfolding w
    by (simp add: ex_cfg_def DEFAULT_HEADERS_def quoted_def digits.simps quote_plus_def
          quote_char_def digit_char_def)
  from 1 2 show ?thesis by (rule conjI)
qed

theorem list_users_empty_where_counterexample:
  "map_of (args (args_request [(''where'', [])])) ''where'' = Some []
   \<and> snd (list_users ex_cfg (ex_env (resp_json 200 (JArr []))) (args_request [(''where'', [])]))
     = [\<lparr>meth = GET, url = ''https://host/api/data/UsersDB?pageSize=50&offset=0'',
         headers = [(''Content-Type'', ''application/json'')], data = None\<rparr>]"
proof -
  have "list_params (ex_env (resp_json 200 (JArr []))) (args_request [(''where'', [])])
          = Inr [(''pageSize'', QInt 50), (''offset'', QInt 0)]"
    by (simp add: list_params_def int_arg_def add_if_given_def args_request_def)
  from list_users_sent [OF this] show ?thesis
    by (simp add: urlencode_default get_request_def)
       (simp add: args_request_def ex_cfg_def DEFAULT_HEADERS_def)
qed

text \<open>
  C7. \<open>find_by_email\<close> and \<open>find_by_username\<close> send, for every path value \<open>v\<close>, one
  GET whose URL is the endpoint followed by the query \<open>where=F%3D%27V%27&pageSize=50&offset=0\<close>,
  with \<open>F\<close> the field name and \<open>V\<close> the URL-encoding of \<open>v\<close> as it came. This query is
  the encoding of the three parameters \<open>where\<close>, \<open>pageSize = 50\<close> and \<open>offset = 0\<close>, the
  \<open>where\<close> value being the field name, \<open>=\<close>, an apostrophe, \<open>v\<close> and an apostrophe:
  nothing is escaped inside the clause.
\<close>

theorem finders_build_literal_where_clause:
  "snd (find_by_email cfg e v)
     = [\<lparr>meth = GET,
         url = BACKENDLESS_BASE_URL cfg @ ''?where=email%3D%27'' @ quote_plus v
               @ ''%27&pageSize=50&offset=0'',
         headers = DEFAULT_HEADERS cfg, data = None\<rparr>]
   \<and> snd (find_by_username cfg e v)
     = [\<lparr>meth = GET,
         url = BACKENDLESS_BASE_URL cfg @ ''?where=username%3D%27'' @ quote_plus v
               @ ''%27&pageSize=50&offset=0'',
         headers = DEFAULT_HEADERS cfg, data = None\<rparr>]
   \<and> ''where=email%3D%27'' @ quote_plus v @ ''%27&pageSize=50&offset=0''
     = urlencode [(''where'', QStr (''email='' @ [CHR 0x27] @ v @ [CHR 0x27])),
                  (''pageSize'', QInt 50), (''offset'', QInt 0)]
   \<and> ''where=username%3D%27'' @ quote_plus v @ ''%27&pageSize=50&offset=0''
     = urlencode [(''where'', QStr (''username='' @ [CHR 0x27] @ v @ [CHR 0x27])),
                  (''pageSize'', QInt 50), (''offset'', QInt 0)]"
proof -
  have p: "find_params field v
     = [(''where'', QStr (field @ ''='' @ [CHR 0x27] @ v @ [CHR 0x27])),
        (''pageSize'', QInt 50), (''offset'', QInt 0)]" for field
    by (simp add: find_params_def quoted_def)
  have q: "quote_plus ''email'' = ''email''" "quote_plus ''username'' = ''username''"
    by (simp_all add: quote_plus_def quote_char_def)
  have u: "urlencode (find_params ''email'' v)
             = ''where=email%3D%27'' @ quote_plus v @ ''%27&pageSize=50&offset=0''"
    "urlencode (find_params ''username'' v)
             = ''where=username%3D%27'' @ quote_plus v @ ''%27&pageSize=50&offset=0''"
    using urlencode_find_params [of "''email''" v] urlencode_find_params [of "''username''" v]
    by (simp_all add: q)
  have 1: "snd (find_by_email cfg e v)
     = [\<lparr>meth = GET,
         url = BACKENDLESS_BASE_URL cfg @ ''?where=email%3D%27'' @ quote_plus v
               @ ''%27&pageSize=50&offset=0'',
         headers = DEFAULT_HEADERS cfg, data = None\<rparr>]"
    by (simp add: find_by_email_def relay_sent u get_request_def)
  have 2: "snd (find_by_username cfg e v)
     = [\<lparr>meth = GET,
         url = BACKENDLESS_BASE_URL cfg @ ''?where=username%3D%27'' @ quote_plus v
               @ ''%27&pageSize=50&offset=0'',
         headers = DEFAULT_HEADERS cfg, data = None\<rparr>]"
    by (simp add: find_by_username_def relay_sent u get_request_def)
  from 1 2 u [unfolded p] show ?thesis by simp
qed

theorem finders_build_literal_where_clause_witness:
  "snd (find_by_email ex_cfg (ex_env (resp_json 200 (JArr []))) (''x'' @ [CHR 0x27] @ '' OR 1=1''))
     = [\<lparr>meth = GET,
         url = ''https://host/api/data/UsersDB?where=email%3D%27x%27+OR+1%3D1%27&pageSize=50&offset=0'',
         headers = [(''Content-Type'', ''application/json'')], data = None\<rparr>]"
  using conjunct1 [OF finders_build_literal_where_clause
          [of ex_cfg "ex_env (resp_json 200 (JArr []))" "''x'' @ [CHR 0x27] @ '' OR 1=1''"]]
  by (simp add: ex_cfg_def DEFAULT_HEADERS_def quote_plus_def quote_char_def digit_char_def)

text \<open>
  C8, as the code has it. Whenever \<open>list_users\<close> has called the service and the answer
  is a success whose body parses as JSON, that JSON is returned unchanged and the
  caller's status is 200, whatever the external success status was.
\<close>

theorem list_users_success_is_200:
  assumes "snd (list_users cfg e req) = [q]" and "send e q = Some r" and "ok r"
    and "json_body r = Some j"
  shows "fst (list_users cfg e req) = Reply j 200
       \<and> http_status (fst (list_users cfg e req)) = 200"
  using assms
  by (auto simp: list_users_def relay_sent relay_ok split: sum.splits)

theorem list_users_success_is_200_witness:
  "fst (list_users ex_cfg (ex_env (resp_json 200 (JArr [ex_record]))) (args_request []))
     = Reply (JArr [ex_record]) 200"
proof -
  let ?r = "resp_json 200 (JArr [ex_record])"
  let ?q = "get_request ex_cfg ''https://host/api/data/UsersDB?pageSize=50&offset=0''"
  have "list_params (ex_env ?r) (args_request []) = Inr [(''pageSize'', QInt 50), (''offset'', QInt 0)]"
    by (simp add: list_params_def int_arg_def add_if_given_def args_request_def)
  from list_users_sent [OF this]
  have s: "snd (list_users ex_cfg (ex_env ?r) (args_request [])) = [?q]"
    by (simp add: urlencode_default) (simp add: ex_cfg_def)
  have a: "send (ex_env ?r) ?q = Some ?r" by (simp add: ex_env_def)
  have o: "ok ?r" by (simp add: ok_def resp_json_def)
  have j: "json_body ?r = Some (JArr [ex_record])" by (simp add: resp_json_def)
  from list_users_success_is_200 [OF s a o j] show ?thesis by simp
qed

theorem list_users_status_not_mirrored_counterexample:
  "status_code (resp_json 203 (JArr [ex_record])) = 203
   \<and> ok (resp_json 203 (JArr [ex_record]))
   \<and> list_users ex_cfg (ex_env (resp_json 203 (JArr [ex_record]))) (args_request [])
       = (Reply (JArr [ex_record]) 200,
          [get_request ex_cfg ''https://host/api/data/UsersDB?pageSize=50&offset=0''])"
proof -
  let ?r = "resp_json 203 (JArr [ex_record])"
  have "list_params (ex_env ?r) (args_request []) = Inr [(''pageSize'', QInt 50), (''offset'', QInt 0)]"
    by (simp add: list_params_def int_arg_def add_if_given_def args_request_def)
  then have "list_users ex_cfg (ex_env ?r) (args_request [])
      = relay (ex_env ?r) (get_request ex_cfg ''https://host/api/data/UsersDB?pageSize=50&offset=0'') 200"
    by (simp add: list_users_def urlencode_default) (simp add: ex_cfg_def)
  then show ?thesis
    by (simp add: relay_def ex_env_def ok_def resp_json_def)
qed

text \<open>
  C9. When the \<open>pageSize\<close> or the \<open>offset\<close> argument is present and \<^verbatim>\<open>int\<close> cannot
  parse it, \<open>list_users\<close> ends with the escaped \<^verbatim>\<open>ValueError\<close>: no 400, no error
  envelope, and no call to the service.
\<close>

theorem list_users_bad_integer_escapes:
  assumes "(\<exists>s. map_of (args req) ''pageSize'' = Some s \<and> int_of_str e s = None)
         \<or> (\<exists>s. map_of (args req) ''offset'' = Some s \<and> int_of_str e s = None)"
  shows "list_users cfg e req = (Uncaught ValueError, [])"
  using assms
  by (auto simp: list_users_def list_params_def int_arg_def split: option.splits)

theorem list_users_bad_integer_escapes_witness:
  "map_of (args (args_request [(''pageSize'', ''abc'')])) ''pageSize'' = Some ''abc''
   \<and> int_of_str (ex_env (resp_json 200 (JArr []))) ''abc'' = None
   \<and> list_users ex_cfg (ex_env (resp_json 200 (JArr []))) (args_request [(''pageSize'', ''abc'')])
       = (Uncaught ValueError, [])"
proof -
  have a: "map_of (args (args_request [(''pageSize'', ''abc'')])) ''pageSize'' = Some ''abc''"
    by (simp add: args_request_def)
  have b: "int_of_str (ex_env (resp_json 200 (JArr []))) ''abc'' = None"
    by (simp add: ex_env_def)
  from a b have "(\<exists>s. map_of (args (args_request [(''pageSize'', ''abc'')])) ''pageSize'' = Some s
                     \<and> int_of_str (ex_env (resp_json 200 (JArr []))) s = None)
         \<or> (\<exists>s. map_of (args (args_request [(''pageSize'', ''abc'')])) ''offset'' = Some s
                     \<and> int_of_str (ex_env (resp_json 200 (JArr []))) s = None)"
    by blast
  from list_users_bad_integer_escapes [OF this, of ex_cfg] a b show ?thesis by simp
qed

end
